theory Spec2Isabelle
  imports Main "HOL-Library.Word"
begin

unbundle bit_operations_syntax

section \<open>The serial channel\<close>

text \<open>
  The program of \<^verbatim>\<open>USB_18v7.c\<close> talks to a Pololu Simple Motor Controller through a
  file descriptor, with the POSIX calls \<^verbatim>\<open>write\<close> and \<^verbatim>\<open>read\<close>. The device behind the
  descriptor is the environment of the program: the model passes it around explicitly.

  A channel records every call made on it, and holds what the environment answers to the
  next call, as a function of the calls made so far:
  \<^item> \<^verbatim>\<open>write(fd, buf, n)\<close> returns an \<^verbatim>\<open>ssize_t\<close>: \<^verbatim>\<open>-1\<close> for an error, otherwise the
    number of bytes accepted, which for a request of \<^verbatim>\<open>n > 0\<close> bytes lies between 1 and
    \<^verbatim>\<open>n\<close> and may be less than \<^verbatim>\<open>n\<close>;
  \<^item> \<^verbatim>\<open>read(fd, buf, n)\<close> returns \<^verbatim>\<open>-1\<close> for an error, otherwise the number of bytes
    stored in \<^verbatim>\<open>buf\<close> (0 at end of stream); the model returns that number together with
    the contents of \<^verbatim>\<open>buf\<close> after the call, indexed from 0. Where \<^verbatim>\<open>read\<close> stored
    nothing the contents are whatever the memory held, so they are the environment's too.

  The record itself puts no bound on the answers: a theorem that needs the bounds of a
  call's result states them as a hypothesis.

  \<^verbatim>\<open>perror\<close> only prints on the standard error stream and is left out.
\<close>

type_synonym byte = "8 word"

type_synonym buffer = "nat \<Rightarrow> byte"

datatype call = SysWrite "byte list" | SysRead nat

record channel =
  write_result :: "call list \<Rightarrow> byte list \<Rightarrow> int"
  read_result :: "call list \<Rightarrow> nat \<Rightarrow> int \<times> buffer"
  calls :: "call list"

definition posix_write :: "channel \<Rightarrow> byte list \<Rightarrow> int \<times> channel" where
  "posix_write fd buf =
     (write_result fd (calls fd) buf, fd\<lparr>calls := calls fd @ [SysWrite buf]\<rparr>)"

definition posix_read :: "channel \<Rightarrow> nat \<Rightarrow> int \<times> buffer \<times> channel" where
  "posix_read fd n =
     (case read_result fd (calls fd) n of
        (r, buf) \<Rightarrow> (r, buf, fd\<lparr>calls := calls fd @ [SysRead n]\<rparr>))"

text \<open>
  A test double: a channel that has seen no call yet, whose every \<^verbatim>\<open>write\<close> returns
  \<open>w\<close> and whose every \<^verbatim>\<open>read\<close> returns \<open>r\<close> and leaves \<open>b0\<close>, \<open>b1\<close> in the
  first two bytes of the buffer.
\<close>

definition scripted :: "int \<Rightarrow> int \<Rightarrow> byte \<Rightarrow> byte \<Rightarrow> channel" where
  "scripted w r b0 b1 =
     \<lparr>write_result = (\<lambda>_ _. w),
      read_result = (\<lambda>_ _. (r, \<lambda>i. if i = 0 then b0 else b1)),
      calls = []\<rparr>"

section \<open>The functions of the source\<close>

text \<open>\<^verbatim>\<open>#define SERIAL_ERROR -9999\<close>\<close>

definition SERIAL_ERROR :: int where
  "SERIAL_ERROR = - 9999"

text \<open>
  \<^verbatim>\<open>int smcGetVariable(int fd, unsigned char variableId)\<close>: the command array holds
  \<^verbatim>\<open>0xA1\<close> and the id, and \<^verbatim>\<open>sizeof(command)\<close> is 2, so both bytes are offered to
  \<^verbatim>\<open>write\<close>. The two response bytes are promoted to \<^verbatim>\<open>int\<close> before the arithmetic,
  which stays below 65536.
\<close>

definition smcGetVariable :: "channel \<Rightarrow> byte \<Rightarrow> int \<times> channel" where
  "smcGetVariable fd variableId =
     (let command = [0xA1, variableId] in
      case posix_write fd command of
        (w, fd1) \<Rightarrow>
          if w = - 1 then (SERIAL_ERROR, fd1)
          else
            (case posix_read fd1 2 of
               (r, response, fd2) \<Rightarrow>
                 if r \<noteq> 2 then (SERIAL_ERROR, fd2)
                 else (uint (response 0) + 256 * uint (response 1), fd2)))"

text \<open>
  \<^verbatim>\<open>int smcGetTargetSpeed(int fd)\<close>: the cast \<^verbatim>\<open>(signed short)val\<close> keeps the low 16
  bits of \<^verbatim>\<open>val\<close> and reads them as two's complement.
\<close>

definition smcGetTargetSpeed :: "channel \<Rightarrow> int \<times> channel" where
  "smcGetTargetSpeed fd =
     (case smcGetVariable fd 20 of
        (val, fd1) \<Rightarrow>
          (if val = SERIAL_ERROR then SERIAL_ERROR else sint (word_of_int val :: 16 word), fd1))"

definition smcGetErrorStatus :: "channel \<Rightarrow> int \<times> channel" where
  "smcGetErrorStatus fd = smcGetVariable fd 0"

definition smcExitSafeStart :: "channel \<Rightarrow> int \<times> channel" where
  "smcExitSafeStart fd =
     (let command = 0x83 in
      case posix_write fd [command] of
        (w, fd1) \<Rightarrow> if w = - 1 then (SERIAL_ERROR, fd1) else (0, fd1))"

text \<open>
  \<^verbatim>\<open>int smcSetTargetSpeed(int fd, int speed)\<close>: \<^verbatim>\<open>speed\<close> is a 32-bit \<^verbatim>\<open>int\<close>, read as
  two's complement by the comparison and by the shift (\<^verbatim>\<open>speed >> 5 & 0x7F\<close> parses as
  \<^verbatim>\<open>(speed >> 5) & 0x7F\<close>). The negation is the machine's: at the least \<^verbatim>\<open>int\<close>, where
  ISO C leaves \<^verbatim>\<open>-speed\<close> undefined, it wraps around to the same value. Storing an
  \<^verbatim>\<open>int\<close> in an \<^verbatim>\<open>unsigned char\<close> keeps its low 8 bits.
\<close>

definition smcSetTargetSpeed :: "channel \<Rightarrow> 32 word \<Rightarrow> int \<times> channel" where
  "smcSetTargetSpeed fd speed0 =
     (case (if speed0 <s 0 then (0x86, - speed0) else (0x85, speed0)) of
        (command0, speed) \<Rightarrow>
          (let command1 = ucast (speed AND 0x1F);
               command2 = ucast (signed_drop_bit 5 speed AND 0x7F)
           in case posix_write fd [command0, command1, command2] of
                (w, fd1) \<Rightarrow> if w = - 1 then (SERIAL_ERROR, fd1) else (0, fd1)))"

section \<open>The encoding as the specification words it\<close>

text \<open>
  The specification describes the Set Target Speed command on mathematical integers:
  the direction byte is \<^verbatim>\<open>0x86\<close> for a negative speed and \<^verbatim>\<open>0x85\<close> otherwise, the low
  byte is \<^verbatim>\<open>magnitude & 0x1F\<close> and the high byte is \<^verbatim>\<open>(magnitude >> 5) & 0x7F\<close>, with
  \<^verbatim>\<open>magnitude = abs(speed)\<close>.
\<close>

definition encodeSetTargetSpeed_spec :: "int \<Rightarrow> byte list" where
  "encodeSetTargetSpeed_spec speed =
     (let direction = (if speed < 0 then 0x86 else 0x85);
          magnitude = \<bar>speed\<bar>
      in [direction, word_of_int (magnitude AND 0x1F),
          word_of_int (drop_bit 5 magnitude AND 0x7F)])"

text \<open>
  The specification's reading of a raw 16-bit value as a signed 16-bit two's complement
  number.
\<close>

definition reinterpret_i16_spec :: "int \<Rightarrow> int" where
  "reinterpret_i16_spec raw = (if raw < 32768 then raw else raw - 65536)"

section \<open>What each function does on a channel\<close>

lemma smcGetVariable_run:
  "smcGetVariable fd v =
     (let c1 = calls fd @ [SysWrite [0xA1, v]] in
      if write_result fd (calls fd) [0xA1, v] = - 1 then (SERIAL_ERROR, fd\<lparr>calls := c1\<rparr>)
      else if fst (read_result fd c1 2) \<noteq> 2
           then (SERIAL_ERROR, fd\<lparr>calls := c1 @ [SysRead 2]\<rparr>)
           else (uint (snd (read_result fd c1 2) 0) + 256 * uint (snd (read_result fd c1 2) 1),
                 fd\<lparr>calls := c1 @ [SysRead 2]\<rparr>))"
  by (simp add: smcGetVariable_def posix_write_def posix_read_def Let_def split: prod.splits)

lemma smcExitSafeStart_run:
  "smcExitSafeStart fd =
     (if write_result fd (calls fd) [0x83] = - 1 then SERIAL_ERROR else 0,
      fd\<lparr>calls := calls fd @ [SysWrite [0x83]]\<rparr>)"
  by (simp add: smcExitSafeStart_def posix_write_def Let_def)

subsection \<open>The masks, bit by bit\<close>

lemma mask5_word: "(0x1F :: 32 word) = mask 5"
  by (simp add: mask_eq_exp_minus_1)

lemma mask7_word: "(0x7F :: 32 word) = mask 7"
  by (simp add: mask_eq_exp_minus_1)

lemma mask5_int: "(0x1F :: int) = mask 5"
  by (simp add: mask_eq_exp_minus_1)

lemma mask7_int: "(0x7F :: int) = mask 7"
  by (simp add: mask_eq_exp_minus_1)

lemma bit_command1:
  "bit (ucast ((w :: 32 word) AND 0x1F) :: byte) n \<longleftrightarrow> n < 5 \<and> bit w n"
  unfolding mask5_word by (auto simp add: bit_simps)

text \<open>
  The arithmetic shift copies the sign into the top five bits; the mask \<^verbatim>\<open>0x7F\<close> keeps
  bits 5 to 11 of the operand only, so the sign never reaches the byte.
\<close>

lemma bit_command2:
  "bit (ucast (signed_drop_bit 5 (w :: 32 word) AND 0x7F) :: byte) n \<longleftrightarrow>
     n < 7 \<and> bit w (n + 5)"
  unfolding mask7_word by (auto simp add: bit_simps ac_simps)

lemma bit_spec_low:
  "bit (word_of_int (m AND 0x1F) :: byte) n \<longleftrightarrow> n < 5 \<and> bit m n"
  unfolding mask5_int by (auto simp add: bit_simps)

lemma bit_spec_high:
  "bit (word_of_int (drop_bit 5 m AND 0x7F) :: byte) n \<longleftrightarrow> n < 7 \<and> bit m (n + 5)"
  unfolding mask7_int by (auto simp add: bit_simps ac_simps)

lemma command1_eq:
  "(ucast ((word_of_int m :: 32 word) AND 0x1F) :: byte) = word_of_int (m AND 0x1F)"
  by (rule bit_word_eqI) (auto simp add: bit_command1 bit_spec_low bit_simps)

lemma command2_eq:
  "(ucast (signed_drop_bit 5 (word_of_int m :: 32 word) AND 0x7F) :: byte) =
     word_of_int (drop_bit 5 m AND 0x7F)"
  by (rule bit_word_eqI) (auto simp add: bit_command2 bit_spec_high bit_simps)

text \<open>
  On every 32-bit speed the function writes the bytes that the specification's encoder
  gives for the speed read as a signed number, and reports nothing but the outcome of
  the write.
\<close>

lemma smcSetTargetSpeed_run:
  "smcSetTargetSpeed fd speed =
     (let command = encodeSetTargetSpeed_spec (sint speed) in
      (if write_result fd (calls fd) command = - 1 then SERIAL_ERROR else 0,
       fd\<lparr>calls := calls fd @ [SysWrite command]\<rparr>))"
proof (cases "speed <s 0")
  case True
  then have neg: "sint speed < 0"
    by (simp add: word_sless_alt)
  have mag: "- speed = word_of_int \<bar>sint speed\<bar>"
    using neg by simp
  have l: "(ucast (- speed AND 0x1F) :: byte) = word_of_int (\<bar>sint speed\<bar> AND 0x1F)"
    using command1_eq [of "\<bar>sint speed\<bar>"] mag by simp
  have h: "(ucast (signed_drop_bit 5 (- speed) AND 0x7F) :: byte) =
      word_of_int (drop_bit 5 \<bar>sint speed\<bar> AND 0x7F)"
    using command2_eq [of "\<bar>sint speed\<bar>"] mag by simp
  show ?thesis
    using True neg
    by (simp add: smcSetTargetSpeed_def encodeSetTargetSpeed_spec_def posix_write_def Let_def l h)
next
  case False
  then have pos: "\<not> sint speed < 0"
    by (simp add: word_sless_alt)
  have mag: "speed = word_of_int \<bar>sint speed\<bar>"
    using pos by simp
  have l: "(ucast (speed AND 0x1F) :: byte) = word_of_int (\<bar>sint speed\<bar> AND 0x1F)"
    using command1_eq [of "\<bar>sint speed\<bar>"] mag by simp
  have h: "(ucast (signed_drop_bit 5 speed AND 0x7F) :: byte) =
      word_of_int (drop_bit 5 \<bar>sint speed\<bar> AND 0x7F)"
    using command2_eq [of "\<bar>sint speed\<bar>"] mag by simp
  show ?thesis
    using False pos
    by (simp add: smcSetTargetSpeed_def encodeSetTargetSpeed_spec_def posix_write_def Let_def l h)
qed

subsection \<open>The payload as a number\<close>

lemma uint_low: "uint (word_of_int (m AND 0x1F) :: byte) = m mod 32"
  unfolding mask5_int
  by (simp add: uint_word_of_int take_bit_eq_mod flip: take_bit_eq_mask)

lemma uint_high: "uint (word_of_int (drop_bit 5 m AND 0x7F) :: byte) = m div 32 mod 128"
  unfolding mask7_int
  by (simp add: uint_word_of_int take_bit_eq_mod drop_bit_eq_div flip: take_bit_eq_mask)

lemma split12: "(m :: int) mod 32 + 32 * (m div 32 mod 128) = m mod 4096"
  using mod_mult2_eq' [of m 32 128] by simp

lemma payload_value:
  "encodeSetTargetSpeed_spec m = [d, lo, hi] \<Longrightarrow> uint lo + 32 * uint hi = \<bar>m\<bar> mod 4096"
  by (auto simp add: encodeSetTargetSpeed_spec_def Let_def uint_low uint_high split12)

lemma encode_three: "\<exists>d lo hi. encodeSetTargetSpeed_spec m = [d, lo, hi]"
  by (simp add: encodeSetTargetSpeed_spec_def Let_def)

lemma encode_cong:
  assumes dir: "(m < 0) = (m' < 0)" and mag: "\<bar>m\<bar> mod 4096 = \<bar>m'\<bar> mod 4096"
  shows "encodeSetTargetSpeed_spec m = encodeSetTargetSpeed_spec m'"
proof -
  have "\<bar>m\<bar> mod 4096 mod 32 = \<bar>m'\<bar> mod 4096 mod 32"
    using mag by simp
  then have lo: "\<bar>m\<bar> mod 32 = \<bar>m'\<bar> mod 32"
    by (simp add: mod_mod_cancel)
  have hi: "\<bar>m\<bar> div 32 mod 128 = \<bar>m'\<bar> div 32 mod 128"
    using split12 [of "\<bar>m\<bar>"] split12 [of "\<bar>m'\<bar>"] lo mag by linarith
  have l: "(word_of_int (\<bar>m\<bar> AND 0x1F) :: byte) = word_of_int (\<bar>m'\<bar> AND 0x1F)"
    by (rule word_uint_eqI) (simp only: uint_low lo)
  have h: "(word_of_int (drop_bit 5 \<bar>m\<bar> AND 0x7F) :: byte) =
      word_of_int (drop_bit 5 \<bar>m'\<bar> AND 0x7F)"
    by (rule word_uint_eqI) (simp only: uint_high hi)
  show ?thesis
    using dir by (simp add: encodeSetTargetSpeed_spec_def Let_def l h)
qed

subsection \<open>The 16-bit value and its signed reading\<close>

lemma raw_range:
  "0 \<le> uint (b0 :: byte) + 256 * uint (b1 :: byte) \<and> uint b0 + 256 * uint b1 \<le> 65535"
  using uint_lt2p [of b0] uint_lt2p [of b1] by simp

lemma sint16_in_range:
  "- 32768 \<le> k \<Longrightarrow> k < 32768 \<Longrightarrow> sint (word_of_int k :: 16 word) = k"
  by (simp add: signed_of_int signed_take_bit_int_eq_self)

lemma signed_short_cast:
  assumes "0 \<le> v" and "v < 65536"
  shows "sint (word_of_int v :: 16 word) = reinterpret_i16_spec v"
proof (cases "v < 32768")
  case True
  then show ?thesis
    using assms by (simp add: reinterpret_i16_spec_def sint16_in_range)
next
  case False
  have "(word_of_int v :: 16 word) = word_of_int (v - 65536)"
    by (simp add: word_of_int_eq_iff take_bit_eq_mod)
  then show ?thesis
    using assms False by (simp only: reinterpret_i16_spec_def sint16_in_range if_False)
qed

lemma sentinel_bytes:
  "uint (b0 :: byte) + 256 * uint (b1 :: byte) = 55537 \<longleftrightarrow> b0 = 0xF1 \<and> b1 = 0xD8"
proof
  assume a: "uint b0 + 256 * uint b1 = 55537"
  have r0: "0 \<le> uint b0" "uint b0 < 256"
    using uint_lt2p [of b0] by simp_all
  from a r0 have "uint b1 = 216" "uint b0 = 241"
    by presburger+
  then show "b0 = 0xF1 \<and> b1 = 0xD8"
    by (simp add: word_uint_eq_iff)
next
  assume "b0 = 0xF1 \<and> b1 = 0xD8"
  then show "uint b0 + 256 * uint b1 = 55537"
    by simp
qed

lemma smcGetVariable_value:
  "fst (smcGetVariable fd v) = SERIAL_ERROR \<or>
   (0 \<le> fst (smcGetVariable fd v) \<and> fst (smcGetVariable fd v) < 65536)"
  using raw_range [of "snd (read_result fd (calls fd @ [SysWrite [0xA1, v]]) 2) 0"
      "snd (read_result fd (calls fd @ [SysWrite [0xA1, v]]) 2) 1"]
  by (simp add: smcGetVariable_run Let_def)

lemma smcGetTargetSpeed_run:
  "smcGetTargetSpeed fd =
     (case smcGetVariable fd 20 of
        (val, fd1) \<Rightarrow> (if val = SERIAL_ERROR then SERIAL_ERROR else reinterpret_i16_spec val, fd1))"
proof (cases "smcGetVariable fd 20")
  case (Pair val fd1)
  show ?thesis
  proof (cases "val = SERIAL_ERROR")
    case True
    then show ?thesis
      using Pair by (simp add: smcGetTargetSpeed_def)
  next
    case False
    then have "0 \<le> val \<and> val < 65536"
      using smcGetVariable_value [of fd 20] Pair by simp
    then have "sint (word_of_int val :: 16 word) = reinterpret_i16_spec val"
      by (simp add: signed_short_cast)
    then show ?thesis
      using Pair False by (simp add: smcGetTargetSpeed_def)
  qed
qed

lemma reinterpret_sentinel:
  "0 \<le> v \<Longrightarrow> v \<le> 65535 \<Longrightarrow> (reinterpret_i16_spec v = SERIAL_ERROR) = (v = 55537)"
  by (auto simp add: reinterpret_i16_spec_def SERIAL_ERROR_def)

section \<open>The claims of the specification\<close>

subsection \<open>Set Target Speed: the bytes on the wire\<close>

text \<open>
  Claim C1. For every speed from -3200 to 3200, \<^verbatim>\<open>smcSetTargetSpeed\<close> hands
  \<^verbatim>\<open>write\<close> exactly one command of three bytes: the direction, \<^verbatim>\<open>0x86\<close> for a
  negative speed and \<^verbatim>\<open>0x85\<close> otherwise, then the lowest 5 bits of the magnitude,
  then its next 7 bits. Speed 0 gives \<^verbatim>\<open>85 00 00\<close>, speed 3200 gives
  \<^verbatim>\<open>85 00 64\<close> and speed -3200 gives \<^verbatim>\<open>86 00 64\<close>.
\<close>

theorem smcSetTargetSpeed_bytes_in_range:
  assumes "- 3200 \<le> sint speed" and "sint speed \<le> 3200"
  shows "calls (snd (smcSetTargetSpeed fd speed)) =
           calls fd @ [SysWrite [if sint speed < 0 then 0x86 else 0x85,
                                 word_of_int (\<bar>sint speed\<bar> AND 0x1F),
                                 word_of_int (drop_bit 5 \<bar>sint speed\<bar> AND 0x7F)]]
         \<and> calls (snd (smcSetTargetSpeed fd 0)) = calls fd @ [SysWrite [0x85, 0x00, 0x00]]
         \<and> calls (snd (smcSetTargetSpeed fd 3200)) = calls fd @ [SysWrite [0x85, 0x00, 0x64]]
         \<and> calls (snd (smcSetTargetSpeed fd (- 3200))) = calls fd @ [SysWrite [0x86, 0x00, 0x64]]"
proof -
  have general: "calls (snd (smcSetTargetSpeed fd s)) =
      calls fd @ [SysWrite (encodeSetTargetSpeed_spec (sint s))]" for s
    by (simp add: smcSetTargetSpeed_run Let_def)
  have e0: "encodeSetTargetSpeed_spec (sint (0 :: 32 word)) = [0x85, 0x00, 0x00]"
    by (simp add: encodeSetTargetSpeed_spec_def)
  have e1: "encodeSetTargetSpeed_spec (sint (3200 :: 32 word)) = [0x85, 0x00, 0x64]"
    by (simp add: encodeSetTargetSpeed_spec_def)
  have e2: "encodeSetTargetSpeed_spec (sint (- 3200 :: 32 word)) = [0x86, 0x00, 0x64]"
    by (simp add: encodeSetTargetSpeed_spec_def)
  show ?thesis
    unfolding general e0 e1 e2 by (simp add: encodeSetTargetSpeed_spec_def Let_def)
qed

text \<open>
  Claim C1 at speed -1234: the magnitude 1234 is \<open>38 * 32 + 18\<close>, and the command
  is \<^verbatim>\<open>86 12 26\<close>.
\<close>

theorem smcSetTargetSpeed_bytes_in_range_witness:
  "- 3200 \<le> sint (- 1234 :: 32 word) \<and> sint (- 1234 :: 32 word) \<le> 3200 \<and>
   calls (snd (smcSetTargetSpeed (scripted 3 0 0 0) (- 1234))) = [SysWrite [0x86, 18, 38]]"
  using smcSetTargetSpeed_bytes_in_range [of "- 1234" "scripted 3 0 0 0"]
  by (simp add: scripted_def)

text \<open>
  Claim C9. No speed is rejected: whatever the speed, the three bytes are written and
  the result is that of the write alone. Two speeds of the same sign whose magnitudes
  agree modulo 4096 give the same command and the same outcome, and the two payload
  bytes hold the magnitude modulo 4096, that is its lowest 12 bits.
\<close>

theorem smcSetTargetSpeed_truncates:
  assumes "(sint s < 0) = (sint s' < 0)" and "\<bar>sint s\<bar> mod 4096 = \<bar>sint s'\<bar> mod 4096"
  shows "smcSetTargetSpeed fd s = smcSetTargetSpeed fd s' \<and>
         (\<exists>d lo hi.
            calls (snd (smcSetTargetSpeed fd s)) = calls fd @ [SysWrite [d, lo, hi]] \<and>
            uint lo + 32 * uint hi = \<bar>sint s\<bar> mod 4096 \<and>
            fst (smcSetTargetSpeed fd s) =
              (if write_result fd (calls fd) [d, lo, hi] = - 1 then SERIAL_ERROR else 0))"
proof -
  have same: "encodeSetTargetSpeed_spec (sint s) = encodeSetTargetSpeed_spec (sint s')"
    using assms by (rule encode_cong)
  obtain d lo hi where bytes: "encodeSetTargetSpeed_spec (sint s) = [d, lo, hi]"
    using encode_three by blast
  have val: "uint lo + 32 * uint hi = \<bar>sint s\<bar> mod 4096"
    using bytes by (rule payload_value)
  have "calls (snd (smcSetTargetSpeed fd s)) = calls fd @ [SysWrite [d, lo, hi]] \<and>
      fst (smcSetTargetSpeed fd s) =
        (if write_result fd (calls fd) [d, lo, hi] = - 1 then SERIAL_ERROR else 0)"
    by (simp add: smcSetTargetSpeed_run Let_def bytes)
  with val same show ?thesis
    by (auto simp add: smcSetTargetSpeed_run Let_def)
qed

text \<open>
  Claim C9 at the speeds 5000 and 904, which differ by 4096.
\<close>

theorem smcSetTargetSpeed_truncates_witness:
  "(sint (5000 :: 32 word) < 0) = (sint (904 :: 32 word) < 0) \<and>
   \<bar>sint (5000 :: 32 word)\<bar> mod 4096 = \<bar>sint (904 :: 32 word)\<bar> mod 4096 \<and>
   smcSetTargetSpeed (scripted 3 0 0 0) 5000 = smcSetTargetSpeed (scripted 3 0 0 0) 904"
  using smcSetTargetSpeed_truncates [of 5000 904 "scripted 3 0 0 0"]
  by simp

text \<open>
  Claim C10. For a speed of magnitude at most 4095 the payload loses nothing: the low
  byte plus 32 times the high byte is the magnitude.
\<close>

theorem smcSetTargetSpeed_lossless:
  assumes "\<bar>sint speed\<bar> \<le> 4095"
  shows "\<exists>d lo hi.
           calls (snd (smcSetTargetSpeed fd speed)) = calls fd @ [SysWrite [d, lo, hi]] \<and>
           uint lo + 32 * uint hi = \<bar>sint speed\<bar>"
proof -
  obtain d lo hi where bytes: "encodeSetTargetSpeed_spec (sint speed) = [d, lo, hi]"
    using encode_three by blast
  have "uint lo + 32 * uint hi = \<bar>sint speed\<bar> mod 4096"
    using bytes by (rule payload_value)
  then have "uint lo + 32 * uint hi = \<bar>sint speed\<bar>"
    using assms by simp
  moreover have "calls (snd (smcSetTargetSpeed fd speed)) = calls fd @ [SysWrite [d, lo, hi]]"
    by (simp add: smcSetTargetSpeed_run Let_def bytes)
  ultimately show ?thesis
    by blast
qed

text \<open>
  Claim C10 at speed -3200.
\<close>

theorem smcSetTargetSpeed_lossless_witness:
  "\<bar>sint (- 3200 :: 32 word)\<bar> \<le> 4095 \<and>
   (\<exists>d lo hi.
      calls (snd (smcSetTargetSpeed (scripted 3 0 0 0) (- 3200))) = [SysWrite [d, lo, hi]] \<and>
      uint lo + 32 * uint hi = 3200)"
  using smcSetTargetSpeed_lossless [of "- 3200" "scripted 3 0 0 0"]
  by (simp add: scripted_def)

subsection \<open>Get Variable: the exchange\<close>

text \<open>
  Claim C7. For every id, the command that \<^verbatim>\<open>smcGetVariable\<close> writes is the two bytes
  \<^verbatim>\<open>A1\<close> and the id, and nothing else is written: the calls made are that write,
  followed by one read of 2 bytes unless the write returned -1.
  \<^verbatim>\<open>smcGetErrorStatus\<close> writes \<^verbatim>\<open>A1 00\<close>.
\<close>

theorem smcGetVariable_command_bytes:
  "calls (snd (smcGetVariable fd v)) =
     calls fd @ SysWrite [0xA1, v] #
       (if write_result fd (calls fd) [0xA1, v] = - 1 then [] else [SysRead 2])
   \<and> calls (snd (smcGetErrorStatus fd)) =
     calls fd @ SysWrite [0xA1, 0x00] #
       (if write_result fd (calls fd) [0xA1, 0x00] = - 1 then [] else [SysRead 2])"
proof -
  have trace: "calls (snd (smcGetVariable fd i)) =
      calls fd @ SysWrite [0xA1, i] #
        (if write_result fd (calls fd) [0xA1, i] = - 1 then [] else [SysRead 2])" for i
    by (simp add: smcGetVariable_run Let_def)
  have "smcGetErrorStatus fd = smcGetVariable fd 0"
    by (simp add: smcGetErrorStatus_def)
  then show ?thesis
    using trace [of v] trace [of 0] by simp
qed

text \<open>
  Claim C2, as the specification states it, counts a short write as a failure of the
  write step. The source tests the result of \<^verbatim>\<open>write\<close> against -1 only. On a channel
  whose \<^verbatim>\<open>write\<close> accepts 1 of the 2 bytes, \<^verbatim>\<open>smcGetVariable\<close> goes on to read
  and returns the value read, here \<^verbatim>\<open>0x1234\<close>.
\<close>

theorem smcGetVariable_short_write_counterexample:
  "write_result (scripted 1 2 0x34 0x12) [] [0xA1, 0] = 1 \<and>
   smcGetVariable (scripted 1 2 0x34 0x12) 0 =
     (0x1234, (scripted 1 2 0x34 0x12)\<lparr>calls := [SysWrite [0xA1, 0], SysRead 2]\<rparr>)"
  by (simp add: smcGetVariable_run scripted_def)

text \<open>
  Claim C2, amended. When \<^verbatim>\<open>write\<close> returns -1, \<^verbatim>\<open>smcGetVariable\<close> returns
  \<^verbatim>\<open>SERIAL_ERROR\<close> and the only call made on the channel is the write: no read is
  attempted. When \<^verbatim>\<open>write\<close> returns anything else, a short count included, the read
  of 2 bytes follows.
\<close>

theorem smcGetVariable_write_error_no_read:
  "(write_result fd (calls fd) [0xA1, v] = - 1 \<longrightarrow>
      smcGetVariable fd v = (SERIAL_ERROR, fd\<lparr>calls := calls fd @ [SysWrite [0xA1, v]]\<rparr>)) \<and>
   (write_result fd (calls fd) [0xA1, v] \<noteq> - 1 \<longrightarrow>
      calls (snd (smcGetVariable fd v)) = calls fd @ [SysWrite [0xA1, v], SysRead 2])"
proof (intro conjI impI)
  assume "write_result fd (calls fd) [0xA1, v] = - 1"
  then show "smcGetVariable fd v =
      (SERIAL_ERROR, fd\<lparr>calls := calls fd @ [SysWrite [0xA1, v]]\<rparr>)"
    by (simp add: smcGetVariable_run)
next
  assume "write_result fd (calls fd) [0xA1, v] \<noteq> - 1"
  then show "calls (snd (smcGetVariable fd v)) = calls fd @ [SysWrite [0xA1, v], SysRead 2]"
    by (simp add: smcGetVariable_run Let_def)
qed

text \<open>
  Claim C2, amended, on a channel whose write returns -1 and on one whose write
  returns 1.
\<close>

theorem smcGetVariable_write_error_no_read_witness:
  "write_result (scripted (- 1) 2 0x34 0x12) (calls (scripted (- 1) 2 0x34 0x12)) [0xA1, 7] = - 1 \<and>
   smcGetVariable (scripted (- 1) 2 0x34 0x12) 7 =
     (SERIAL_ERROR, (scripted (- 1) 2 0x34 0x12)\<lparr>calls := [SysWrite [0xA1, 7]]\<rparr>) \<and>
   write_result (scripted 1 2 0x34 0x12) (calls (scripted 1 2 0x34 0x12)) [0xA1, 7] \<noteq> - 1 \<and>
   calls (snd (smcGetVariable (scripted 1 2 0x34 0x12) 7)) = [SysWrite [0xA1, 7], SysRead 2]"
  using smcGetVariable_write_error_no_read [of "scripted (- 1) 2 0x34 0x12" 7]
    smcGetVariable_write_error_no_read [of "scripted 1 2 0x34 0x12" 7]
  by (simp add: scripted_def)

text \<open>
  Claim C4. When the write did not fail and the read returns 2 with the bytes \<open>b0\<close>
  then \<open>b1\<close> in the response, \<^verbatim>\<open>smcGetVariable\<close> returns \<open>b0 + 256 * b1\<close>, a
  number from 0 to 65535.
\<close>

theorem smcGetVariable_little_endian:
  assumes "write_result fd (calls fd) [0xA1, v] \<noteq> - 1"
    and "read_result fd (calls fd @ [SysWrite [0xA1, v]]) 2 = (2, response)"
    and "response 0 = b0" and "response 1 = b1"
  shows "fst (smcGetVariable fd v) = uint b0 + 256 * uint b1 \<and>
         0 \<le> fst (smcGetVariable fd v) \<and> fst (smcGetVariable fd v) \<le> 65535"
  using assms raw_range [of b0 b1] by (simp add: smcGetVariable_run Let_def)

text \<open>
  Claim C4 on the response \<^verbatim>\<open>34 12\<close>, which decodes to \<^verbatim>\<open>0x1234\<close>.
\<close>

theorem smcGetVariable_little_endian_witness:
  "write_result (scripted 2 2 0x34 0x12) (calls (scripted 2 2 0x34 0x12)) [0xA1, 20] \<noteq> - 1 \<and>
   read_result (scripted 2 2 0x34 0x12) (calls (scripted 2 2 0x34 0x12) @ [SysWrite [0xA1, 20]]) 2 =
     (2, \<lambda>i. if i = 0 then 0x34 else 0x12) \<and>
   fst (smcGetVariable (scripted 2 2 0x34 0x12) 20) = 0x1234"
  using smcGetVariable_little_endian
    [of "scripted 2 2 0x34 0x12" 20 "\<lambda>i. if i = 0 then 0x34 else 0x12" "0x34" "0x12"]
  by (simp add: scripted_def)

text \<open>
  Claim C5. When the write did not fail and the read returns anything but 2 (1 byte,
  0 bytes at end of stream, or -1 for an error), \<^verbatim>\<open>smcGetVariable\<close> returns
  \<^verbatim>\<open>SERIAL_ERROR\<close>, after the write and the one read.
\<close>

theorem smcGetVariable_short_read:
  assumes "write_result fd (calls fd) [0xA1, v] \<noteq> - 1"
    and "fst (read_result fd (calls fd @ [SysWrite [0xA1, v]]) 2) \<noteq> 2"
  shows "smcGetVariable fd v =
           (SERIAL_ERROR, fd\<lparr>calls := calls fd @ [SysWrite [0xA1, v], SysRead 2]\<rparr>)"
  using assms by (simp add: smcGetVariable_run Let_def)

text \<open>
  Claim C5 on channels whose read returns 0, 1 and -1.
\<close>

theorem smcGetVariable_short_read_witness:
  "write_result (scripted 2 0 0 0) (calls (scripted 2 0 0 0)) [0xA1, 20] \<noteq> - 1 \<and>
   fst (read_result (scripted 2 0 0 0) (calls (scripted 2 0 0 0) @ [SysWrite [0xA1, 20]]) 2) \<noteq> 2 \<and>
   fst (smcGetVariable (scripted 2 0 0 0) 20) = SERIAL_ERROR \<and>
   fst (smcGetVariable (scripted 2 1 0x34 0) 20) = SERIAL_ERROR \<and>
   fst (smcGetVariable (scripted 2 (- 1) 0 0) 20) = SERIAL_ERROR"
  using smcGetVariable_short_read [of "scripted 2 0 0 0" 20]
    smcGetVariable_short_read [of "scripted 2 1 0x34 0" 20]
    smcGetVariable_short_read [of "scripted 2 (- 1) 0 0" 20]
  by (simp add: scripted_def)

subsection \<open>Target speed: the signed reading and the error value\<close>

text \<open>
  Claim C6. \<^verbatim>\<open>smcGetTargetSpeed\<close> runs \<^verbatim>\<open>smcGetVariable\<close> with id 20 and hands back
  its channel; a result of \<^verbatim>\<open>SERIAL_ERROR\<close> is passed on as it is, and any other
  result is read as a signed 16-bit two's complement number. The raw value
  \<^verbatim>\<open>0xFFFF\<close> gives -1 and \<^verbatim>\<open>0x0C80\<close> gives 3200; a failed write and a failed read
  both give \<^verbatim>\<open>SERIAL_ERROR\<close>.
\<close>

theorem smcGetTargetSpeed_signed:
  "smcGetTargetSpeed fd =
     (case smcGetVariable fd 20 of
        (val, fd1) \<Rightarrow> (if val = SERIAL_ERROR then SERIAL_ERROR else reinterpret_i16_spec val, fd1))
   \<and> fst (smcGetVariable (scripted 2 2 0xFF 0xFF) 20) = 0xFFFF
   \<and> fst (smcGetTargetSpeed (scripted 2 2 0xFF 0xFF)) = - 1
   \<and> fst (smcGetVariable (scripted 2 2 0x80 0x0C) 20) = 0x0C80
   \<and> fst (smcGetTargetSpeed (scripted 2 2 0x80 0x0C)) = 3200
   \<and> fst (smcGetTargetSpeed (scripted (- 1) 2 0x80 0x0C)) = SERIAL_ERROR
   \<and> fst (smcGetTargetSpeed (scripted 2 0 0x80 0x0C)) = SERIAL_ERROR"
proof -
  have "fst (smcGetTargetSpeed (scripted w r b0 b1)) =
      (if w = - 1 \<or> r \<noteq> 2 then SERIAL_ERROR
       else reinterpret_i16_spec (uint b0 + 256 * uint b1))" for w r b0 b1
  proof -
    have "uint b0 + 256 * uint b1 \<noteq> SERIAL_ERROR"
      using raw_range [of b0 b1] unfolding SERIAL_ERROR_def by linarith
    then show ?thesis
      by (simp add: smcGetTargetSpeed_run smcGetVariable_run scripted_def Let_def)
  qed
  moreover have "fst (smcGetVariable (scripted 2 2 b0 b1) 20) = uint b0 + 256 * uint b1" for b0 b1
    by (simp add: smcGetVariable_run scripted_def)
  ultimately show ?thesis
    by (simp add: smcGetTargetSpeed_run reinterpret_i16_spec_def)
qed

text \<open>
  Claim C3, as the specification states it, has no successful exchange return the error
  value from \<^verbatim>\<open>smcGetTargetSpeed\<close>. The value -9999 lies inside the signed 16-bit
  range: it is the signed reading of \<^verbatim>\<open>0xD8F1\<close>. On a channel that accepts the
  command and answers \<^verbatim>\<open>F1 D8\<close>, \<^verbatim>\<open>smcGetVariable\<close> succeeds with 55537 and
  \<^verbatim>\<open>smcGetTargetSpeed\<close> returns \<^verbatim>\<open>SERIAL_ERROR\<close>.
\<close>

theorem smcGetTargetSpeed_sentinel_counterexample:
  "write_result (scripted 2 2 0xF1 0xD8) [] [0xA1, 20] = 2 \<and>
   read_result (scripted 2 2 0xF1 0xD8) [SysWrite [0xA1, 20]] 2 =
     (2, \<lambda>i. if i = 0 then 0xF1 else 0xD8) \<and>
   fst (smcGetVariable (scripted 2 2 0xF1 0xD8) 20) = 0xD8F1 \<and>
   fst (smcGetTargetSpeed (scripted 2 2 0xF1 0xD8)) = SERIAL_ERROR"
  by (simp add: smcGetTargetSpeed_run smcGetVariable_run scripted_def SERIAL_ERROR_def
      reinterpret_i16_spec_def)

text \<open>
  Claim C3, amended. After a successful exchange \<^verbatim>\<open>smcGetVariable\<close> never returns
  \<^verbatim>\<open>SERIAL_ERROR\<close>, whatever the id: its value lies between 0 and 65535. After a
  successful exchange \<^verbatim>\<open>smcGetTargetSpeed\<close> returns \<^verbatim>\<open>SERIAL_ERROR\<close> for exactly
  one response, the bytes \<^verbatim>\<open>F1 D8\<close>; for every other response, and so for every speed
  from -3200 to 3200, its result differs from the error value.
\<close>

theorem smcGetTargetSpeed_error_value_iff:
  "(write_result fd (calls fd) [0xA1, v] \<noteq> - 1 \<longrightarrow>
    fst (read_result fd (calls fd @ [SysWrite [0xA1, v]]) 2) = 2 \<longrightarrow>
      fst (smcGetVariable fd v) \<noteq> SERIAL_ERROR \<and>
      0 \<le> fst (smcGetVariable fd v) \<and> fst (smcGetVariable fd v) \<le> 65535) \<and>
   (write_result fd (calls fd) [0xA1, 20] \<noteq> - 1 \<longrightarrow>
    read_result fd (calls fd @ [SysWrite [0xA1, 20]]) 2 = (2, response) \<longrightarrow>
      (fst (smcGetTargetSpeed fd) = SERIAL_ERROR) = (response 0 = 0xF1 \<and> response 1 = 0xD8))"
proof (intro conjI impI)
  let ?buf = "snd (read_result fd (calls fd @ [SysWrite [0xA1, v]]) 2)"
  let ?val = "uint (?buf 0) + 256 * uint (?buf 1)"
  assume "write_result fd (calls fd) [0xA1, v] \<noteq> - 1"
    and "fst (read_result fd (calls fd @ [SysWrite [0xA1, v]]) 2) = 2"
  then have val: "fst (smcGetVariable fd v) = ?val"
    by (simp add: smcGetVariable_run Let_def)
  have range: "0 \<le> ?val \<and> ?val \<le> 65535"
    by (rule raw_range)
  then have "?val \<noteq> SERIAL_ERROR"
    unfolding SERIAL_ERROR_def by linarith
  with val range show "fst (smcGetVariable fd v) \<noteq> SERIAL_ERROR"
    and "0 \<le> fst (smcGetVariable fd v)" and "fst (smcGetVariable fd v) \<le> 65535"
    by simp_all
next
  let ?raw = "uint (response 0) + 256 * uint (response 1)"
  assume "write_result fd (calls fd) [0xA1, 20] \<noteq> - 1"
    and "read_result fd (calls fd @ [SysWrite [0xA1, 20]]) 2 = (2, response)"
  then have val: "fst (smcGetVariable fd 20) = ?raw"
    by (simp add: smcGetVariable_run Let_def)
  have range: "0 \<le> ?raw \<and> ?raw \<le> 65535"
    by (rule raw_range)
  then have ok: "?raw \<noteq> SERIAL_ERROR"
    unfolding SERIAL_ERROR_def by linarith
  have "fst (smcGetTargetSpeed fd) =
      (if fst (smcGetVariable fd 20) = SERIAL_ERROR then SERIAL_ERROR
       else reinterpret_i16_spec (fst (smcGetVariable fd 20)))"
    by (cases "smcGetVariable fd 20") (simp add: smcGetTargetSpeed_run)
  then have "fst (smcGetTargetSpeed fd) = reinterpret_i16_spec ?raw"
    using val ok by simp
  moreover have "(reinterpret_i16_spec ?raw = SERIAL_ERROR) = (?raw = 55537)"
    using range by (intro reinterpret_sentinel) simp_all
  ultimately show
    "(fst (smcGetTargetSpeed fd) = SERIAL_ERROR) = (response 0 = 0xF1 \<and> response 1 = 0xD8)"
    by (simp add: sentinel_bytes)
qed

text \<open>
  Claim C3, amended, on a channel that answers \<^verbatim>\<open>80 0C\<close>: \<^verbatim>\<open>smcGetVariable\<close> at
  id 7 and \<^verbatim>\<open>smcGetTargetSpeed\<close> both succeed, with a value other than the error
  value.
\<close>

theorem smcGetTargetSpeed_error_value_iff_witness:
  "write_result (scripted 2 2 0x80 0x0C) (calls (scripted 2 2 0x80 0x0C)) [0xA1, 7] \<noteq> - 1 \<and>
   fst (read_result (scripted 2 2 0x80 0x0C)
          (calls (scripted 2 2 0x80 0x0C) @ [SysWrite [0xA1, 7]]) 2) = 2 \<and>
   write_result (scripted 2 2 0x80 0x0C) (calls (scripted 2 2 0x80 0x0C)) [0xA1, 20] \<noteq> - 1 \<and>
   read_result (scripted 2 2 0x80 0x0C) (calls (scripted 2 2 0x80 0x0C) @ [SysWrite [0xA1, 20]]) 2 =
     (2, \<lambda>i. if i = 0 then 0x80 else 0x0C) \<and>
   fst (smcGetVariable (scripted 2 2 0x80 0x0C) 7) \<noteq> SERIAL_ERROR \<and>
   fst (smcGetTargetSpeed (scripted 2 2 0x80 0x0C)) \<noteq> SERIAL_ERROR"
  using smcGetTargetSpeed_error_value_iff
    [of "scripted 2 2 0x80 0x0C" 7 "\<lambda>i. if i = 0 then 0x80 else 0x0C"]
  by (simp add: scripted_def)

subsection \<open>Exit Safe Start\<close>

text \<open>
  Claim C8. \<^verbatim>\<open>smcExitSafeStart\<close> makes one call on the channel, a write of the single
  byte \<^verbatim>\<open>83\<close>, and no read. A write of one byte either fails, with -1, or accepts the
  byte, with 1: the function returns 0 exactly when the byte was written, and
  \<^verbatim>\<open>SERIAL_ERROR\<close> exactly when the write failed.
\<close>

theorem smcExitSafeStart_success_iff_written:
  assumes "write_result fd (calls fd) [0x83] = - 1 \<or> write_result fd (calls fd) [0x83] = 1"
  shows "calls (snd (smcExitSafeStart fd)) = calls fd @ [SysWrite [0x83]] \<and>
         (fst (smcExitSafeStart fd) = 0) = (write_result fd (calls fd) [0x83] = 1) \<and>
         (fst (smcExitSafeStart fd) = SERIAL_ERROR) = (write_result fd (calls fd) [0x83] = - 1)"
proof (cases "write_result fd (calls fd) [0x83] = - 1")
  case True
  then have "smcExitSafeStart fd = (SERIAL_ERROR, fd\<lparr>calls := calls fd @ [SysWrite [0x83]]\<rparr>)"
    by (simp add: smcExitSafeStart_run)
  then show ?thesis
    using True by (simp add: SERIAL_ERROR_def)
next
  case False
  then have written: "write_result fd (calls fd) [0x83] = 1"
    using assms by simp
  have "smcExitSafeStart fd = (0, fd\<lparr>calls := calls fd @ [SysWrite [0x83]]\<rparr>)"
    using False by (simp add: smcExitSafeStart_run)
  then show ?thesis
    using written by (simp add: SERIAL_ERROR_def)
qed

text \<open>
  Claim C8 on a channel that accepts the byte and on one whose write fails.
\<close>

theorem smcExitSafeStart_success_iff_written_witness:
  "(write_result (scripted 1 0 0 0) (calls (scripted 1 0 0 0)) [0x83] = - 1 \<or>
    write_result (scripted 1 0 0 0) (calls (scripted 1 0 0 0)) [0x83] = 1) \<and>
   calls (snd (smcExitSafeStart (scripted 1 0 0 0))) = [SysWrite [0x83]] \<and>
   fst (smcExitSafeStart (scripted 1 0 0 0)) = 0 \<and>
   (write_result (scripted (- 1) 0 0 0) (calls (scripted (- 1) 0 0 0)) [0x83] = - 1 \<or>
    write_result (scripted (- 1) 0 0 0) (calls (scripted (- 1) 0 0 0)) [0x83] = 1) \<and>
   calls (snd (smcExitSafeStart (scripted (- 1) 0 0 0))) = [SysWrite [0x83]] \<and>
   fst (smcExitSafeStart (scripted (- 1) 0 0 0)) = SERIAL_ERROR"
  using smcExitSafeStart_success_iff_written [of "scripted 1 0 0 0"]
    smcExitSafeStart_success_iff_written [of "scripted (- 1) 0 0 0"]
  by (simp add: scripted_def)

end
